theory Spec2Isabelle
  imports Main "HOL-Library.AList"
begin

section \<open>The LDProxy configuration generator (ldproxy\_api\_scaffold/api.py)\<close>

text \<open>
  The module holds one class, \<^verbatim>\<open>LDProxyConfigGenerator\<close>. Its constructor opens a
  \<^verbatim>\<open>DatabaseClient\<close>, resolves the target tables, builds the table configuration and
  the three generator objects; \<^verbatim>\<open>generate_yaml_files\<close> asks each generator object to
  write its document; \<^verbatim>\<open>dispose_engine\<close> releases the database engine.

  The classes \<^verbatim>\<open>DatabaseClient\<close>, \<^verbatim>\<open>ApiService\<close>, \<^verbatim>\<open>SQLProvider\<close> and
  \<^verbatim>\<open>TileProvider\<close> are imported by the module and defined elsewhere. The class is
  therefore modelled over a table of collaborator methods (a parameter), and every
  statement that depends only on api.py is proved for all such tables.
\<close>

subsection \<open>Exceptions, the call log and the world\<close>

text \<open>
  A Python exception is a value of \<open>error\<close>. The class raises none of its own: every
  error comes out of a collaborator and propagates unchanged. The constructors name the
  error kinds of the specification; \<open>OSError\<close> stands for a failed write.
\<close>

datatype error =
    ConnectionError
  | NotFoundError "string list"
  | UnsupportedTypeError string
  | DisposedError
  | OSError string

text \<open>Which of the three generator attributes of the object a call goes through.\<close>

datatype gen_kind = Service | Provider | Tiles

text \<open>
  One entry per method or constructor call that api.py makes on a collaborator, with the
  arguments the call site passes, in program order.
\<close>

datatype call =
    NewDatabaseClient string string
  | GetSchemaTables
  | CreateTableConfig "string list"
  | NewApiService string "string list"
  | NewSQLProvider string string bool
  | NewTileProvider string
  | CreateYaml gen_kind string
  | DisposeEngine

text \<open>
  The world is everything outside the object that a collaborator can read or change (the
  database, the engine's connections, the files), of a type \<open>'w\<close> that the collaborators
  fix, together with the log of the calls made so far. Collaborators work on \<open>'w\<close>; only
  the call sites of api.py extend the log.
\<close>

record 'w world =
  calls :: "call list"
  outside :: 'w

type_synonym ('a, 'w) effect = "'w \<Rightarrow> (error + 'a) \<times> 'w"

type_synonym ('a, 'w) prog = "'w world \<Rightarrow> (error + 'a) \<times> 'w world"

text \<open>
  \<open>call c f\<close> is one collaborator call: it is logged, then run on the outside world.
  \<open>bind\<close> is Python's sequencing: a raised exception skips the rest, and the world
  stays as the raising call left it. \<open>return\<close> is a value without effect.
\<close>

definition call :: "call \<Rightarrow> ('a, 'w) effect \<Rightarrow> ('a, 'w) prog" where
  "call c f s =
     (case f (outside s) of
        (r, w) \<Rightarrow> (r, \<lparr>calls = calls s @ [c], outside = w\<rparr>))"

definition return :: "'a \<Rightarrow> ('a, 'w) prog" where
  "return a s = (Inr a, s)"

definition bind :: "('a, 'w) prog \<Rightarrow> ('a \<Rightarrow> ('b, 'w) prog) \<Rightarrow> ('b, 'w) prog" where
  "bind m k s =
     (case m s of
        (Inl e, s') \<Rightarrow> (Inl e, s')
      | (Inr a, s') \<Rightarrow> k a s')"

subsection \<open>The collaborators\<close>

text \<open>
  The methods of the imported classes that api.py calls. \<open>'c\<close> is a DatabaseClient
  object, \<open>'e\<close> its engine attribute, \<open>'t\<close> a table configuration, \<open>'g\<close> a generator
  object (all three generator classes offer \<^verbatim>\<open>create_yaml\<close>). Each constructor and
  method may raise and may change the world. \<open>SQLProvider\<close> takes, in this order, the
  service id, \<^verbatim>\<open>force_axis_order\<close>, \<^verbatim>\<open>table_config\<close>, \<^verbatim>\<open>engine\<close> and \<^verbatim>\<open>docker\<close>; its
  \<^verbatim>\<open>db_config\<close> argument is the constant \<^verbatim>\<open>None\<close> at the only call site.
\<close>

record ('c, 'e, 't, 'g, 'w) collaborators =
  DatabaseClient :: "string \<Rightarrow> string \<Rightarrow> ('c, 'w) effect"
  get_schema_tables :: "'c \<Rightarrow> (string list, 'w) effect"
  create_table_config :: "'c \<Rightarrow> string list \<Rightarrow> ('t, 'w) effect"
  engine :: "'c \<Rightarrow> 'e"
  client_dispose_engine :: "'c \<Rightarrow> (unit, 'w) effect"
  ApiService :: "string \<Rightarrow> 't \<Rightarrow> string list \<Rightarrow> ('g, 'w) effect"
  SQLProvider :: "string \<Rightarrow> string \<Rightarrow> 't \<Rightarrow> 'e \<Rightarrow> bool \<Rightarrow> ('g, 'w) effect"
  TileProvider :: "string \<Rightarrow> 't \<Rightarrow> ('g, 'w) effect"
  create_yaml :: "'g \<Rightarrow> string \<Rightarrow> (unit, 'w) effect"

subsection \<open>The class LDProxyConfigGenerator\<close>

text \<open>
  The attributes set by \<^verbatim>\<open>__init__\<close> before it calls \<^verbatim>\<open>_init_resources\<close>, and the
  attributes of the finished object.
\<close>

record 'c generator_args =
  service_id :: string
  schema_name :: string
  db_conn_str :: string
  target_tables :: "string list option"
  api_blocks :: "string list"
  docker :: bool
  db_client :: 'c

record ('c, 't, 'g) ldproxy_config_generator = "'c generator_args" +
  table_config :: 't
  service_obj :: 'g
  sql_provider_obj :: 'g
  tile_provider_obj :: 'g

definition default_api_blocks :: "string list" where
  "default_api_blocks =
     [''QUERYABLES'', ''CRS'', ''FILTER'', ''TILES'', ''STYLES'', ''PROJECTIONS'']"

text \<open>
  \<^verbatim>\<open>api_blocks or [...]\<close>: Python's \<^verbatim>\<open>or\<close> yields its right operand when the left one
  is falsy, and both \<^verbatim>\<open>None\<close> and the empty list are falsy.
\<close>

definition py_or :: "string list option \<Rightarrow> string list \<Rightarrow> string list" where
  "py_or x d = (case x of None \<Rightarrow> d | Some [] \<Rightarrow> d | Some (b # bs) \<Rightarrow> b # bs)"

text \<open>
  \<^verbatim>\<open>
  def _init_resources(self):
      if self.target_tables is None:
          self.target_tables = self.db_client.get_schema_tables()
      self.table_config = self.db_client.create_table_config(self.target_tables)
      self.service_obj = ApiService(self.service_id, self.table_config, self.api_blocks)
      self.sql_provider_obj = SQLProvider(self.service_id, force_axis_order="LON_LAT",
                                          table_config=self.table_config,
                                          engine=self.db_client.engine,
                                          db_config=None,
                                          docker=self.docker)
      self.tile_provider_obj = TileProvider(self.service_id, self.table_config)
  \<close>
\<close>

definition init_resources ::
  "('c, 'e, 't, 'g, 'w) collaborators \<Rightarrow> 'c generator_args
     \<Rightarrow> (('c, 't, 'g) ldproxy_config_generator, 'w) prog" where
  "init_resources env self =
     bind (case target_tables self of
             None \<Rightarrow> call GetSchemaTables (get_schema_tables env (db_client self))
           | Some ts \<Rightarrow> return ts) (\<lambda>ts.
     bind (call (CreateTableConfig ts)
             (create_table_config env (db_client self) ts)) (\<lambda>tc.
     bind (call (NewApiService (service_id self) (api_blocks self))
             (ApiService env (service_id self) tc (api_blocks self))) (\<lambda>sv.
     bind (call (NewSQLProvider (service_id self) ''LON_LAT'' (docker self))
             (SQLProvider env (service_id self) ''LON_LAT'' tc
                (engine env (db_client self)) (docker self))) (\<lambda>sq.
     bind (call (NewTileProvider (service_id self))
             (TileProvider env (service_id self) tc)) (\<lambda>tl.
     return
       \<lparr>service_id = service_id self,
        schema_name = schema_name self,
        db_conn_str = db_conn_str self,
        target_tables = Some ts,
        api_blocks = api_blocks self,
        docker = docker self,
        db_client = db_client self,
        table_config = tc,
        service_obj = sv,
        sql_provider_obj = sq,
        tile_provider_obj = tl\<rparr>)))))"

text \<open>
  \<^verbatim>\<open>
  def __init__(self, service_id, schema_name, db_conn_str, target_tables=None,
               api_blocks=None, docker=False):
      self.service_id = service_id
      self.schema_name = schema_name
      self.db_conn_str = db_conn_str
      self.target_tables = target_tables
      self.api_blocks = api_blocks or ["QUERYABLES", "CRS", "FILTER", "TILES", "STYLES", "PROJECTIONS"]
      self.docker = docker
      self.db_client = DatabaseClient(self.db_conn_str, self.schema_name)
      self._init_resources()
  \<close>
  An omitted \<^verbatim>\<open>target_tables\<close> or \<^verbatim>\<open>api_blocks\<close> is \<open>None\<close>, an omitted \<^verbatim>\<open>docker\<close>
  is \<open>False\<close>. An exception leaves the caller without an object: the result is \<open>Inl\<close>,
  and the attributes assigned so far are lost with it.
\<close>

definition init ::
  "('c, 'e, 't, 'g, 'w) collaborators \<Rightarrow> string \<Rightarrow> string \<Rightarrow> string
     \<Rightarrow> string list option \<Rightarrow> string list option \<Rightarrow> bool
     \<Rightarrow> (('c, 't, 'g) ldproxy_config_generator, 'w) prog" where
  "init env sid schema conn tables blocks dock =
     bind (call (NewDatabaseClient conn schema) (DatabaseClient env conn schema)) (\<lambda>c.
     init_resources env
       \<lparr>service_id = sid,
        schema_name = schema,
        db_conn_str = conn,
        target_tables = tables,
        api_blocks = py_or blocks default_api_blocks,
        docker = dock,
        db_client = c\<rparr>)"

text \<open>
  \<^verbatim>\<open>
  def generate_yaml_files(self, export_dir):
      self.service_obj.create_yaml(export_dir)
      self.sql_provider_obj.create_yaml(export_dir)
      self.tile_provider_obj.create_yaml(export_dir)
  \<close>
\<close>

definition generate_yaml_files ::
  "('c, 'e, 't, 'g, 'w) collaborators \<Rightarrow> ('c, 't, 'g) ldproxy_config_generator
     \<Rightarrow> string \<Rightarrow> (unit, 'w) prog" where
  "generate_yaml_files env self export_dir =
     bind (call (CreateYaml Service export_dir)
             (create_yaml env (service_obj self) export_dir)) (\<lambda>_.
     bind (call (CreateYaml Provider export_dir)
             (create_yaml env (sql_provider_obj self) export_dir)) (\<lambda>_.
     call (CreateYaml Tiles export_dir)
       (create_yaml env (tile_provider_obj self) export_dir)))"

text \<open>
  \<^verbatim>\<open>
  def dispose_engine(self):
      self.db_client.dispose_engine()
  \<close>
\<close>

definition dispose_engine ::
  "('c, 'e, 't, 'g, 'w) collaborators \<Rightarrow> ('c, 't, 'g) ldproxy_config_generator
     \<Rightarrow> (unit, 'w) prog" where
  "dispose_engine env self =
     call DisposeEngine (client_dispose_engine env (db_client self))"

subsection \<open>The collaborators as the specification describes them\<close>

text \<open>
  The four imported classes are described by the specification only. The definitions of
  this subsection follow its words; they serve as a concrete table of collaborators and
  settle the statements that the imported classes decide. The reserved-word escaping
  rule, which the specification leaves open, and the layout of the YAML text are left
  out: a feature type is named by its table.
\<close>

text \<open>
  Modelled from the spec: the logical types of columns, and the metadata of one table in
  the table model (its columns in ordinal order with their logical types, the primary-key
  column, the geometry column if there is one). Nullability, spatial reference and
  geometry subtype are left out, and so is the policy for a table without a primary key,
  which the specification leaves open.
\<close>

datatype logical_type = Text | Numeric | Boolean | Date | Geometry

record table_info =
  columns :: "(string \<times> logical_type) list"
  primary_key :: "string option"
  geometry_column :: "string option"

text \<open>
  Modelled from the spec: the raw metadata of one table in the database (its columns in
  ordinal order with their native types, the primary-key column, the geometry column if
  there is one).
\<close>

record raw_table =
  raw_columns :: "(string \<times> string) list"
  raw_primary_key :: "string option"
  raw_geometry_column :: "string option"

text \<open>
  Modelled from the spec: the table model that DatabaseClient builds, a keyed mapping
  from table names to their metadata, in insertion order.
\<close>

type_synonym table_model = "(string \<times> table_info) list"

text \<open>
  Modelled from the spec: the documents of the three generator classes, namely the
  service document (id, one feature type per table with its
  queryable properties when QUERYABLES is enabled, the enabled building blocks), the
  provider document (id, axis order, deployment-path policy, one entry per table) and the
  tile document (id, one tileset per table that has a geometry column).
\<close>

datatype document =
    ServiceDoc string "(string \<times> string list option) list" "string list"
  | ProviderDoc string string bool "(string \<times> table_info) list"
  | TilesDoc string "string list"

text \<open>
  Modelled from the spec: the outside world of the imported classes, that is, whether
  the database can be reached, whether the engine's connection has been released, the
  configured mapping of native column types to logical types, the schemas with their
  tables, the document paths that cannot be written, and the documents stored so far (a
  map from document paths to documents). A document path is an output location with the
  kind of the document.
\<close>

record db_world =
  reachable :: bool
  engine_disposed :: bool
  type_mapping :: "(string \<times> logical_type) list"
  catalog :: "(string \<times> (string \<times> raw_table) list) list"
  locked :: "(string \<times> gen_kind) list"
  files :: "string \<times> gen_kind \<Rightarrow> document option"

text \<open>
  Modelled from the spec: a DatabaseClient object (connection descriptor and schema
  name; its engine attribute is the descriptor) and the objects of the three generator
  classes, each holding what its constructor was given.
\<close>

record spec_client =
  client_conn_str :: string
  client_schema :: string

datatype generator =
    ApiServiceObj string table_model "string list"
  | SQLProviderObj string string table_model string bool
  | TileProviderObj string table_model

text \<open>
  Modelled from the spec: the constructor of DatabaseClient (the Metadata Source over a
  connection descriptor and a schema name). It keeps its two arguments.
\<close>

definition spec_DatabaseClient :: "string \<Rightarrow> string \<Rightarrow> (spec_client, db_world) effect" where
  "spec_DatabaseClient conn schema w =
     (Inr \<lparr>client_conn_str = conn, client_schema = schema\<rparr>, w)"

text \<open>
  Modelled from the spec: DatabaseClient.get\_schema\_tables, the operation
  \<^verbatim>\<open>listTables(schema)\<close>. It fails with ConnectionError if the schema cannot be reached
  and with NotFoundError if the schema does not exist.
\<close>

definition spec_get_schema_tables :: "spec_client \<Rightarrow> (string list, db_world) effect" where
  "spec_get_schema_tables c w =
     (if \<not> reachable w then (Inl ConnectionError, w)
      else case map_of (catalog w) (client_schema c) of
             None \<Rightarrow> (Inl (NotFoundError [client_schema c]), w)
           | Some tabs \<Rightarrow> (Inr (map fst tabs), w))"

text \<open>
  Modelled from the spec: DatabaseClient.create\_table\_config, the operation
  \<^verbatim>\<open>buildTableModel(schema, tableNames)\<close>. The missing tables are collected and reported
  together in one NotFoundError. Otherwise every requested table gets its entry, keyed by
  its name, in the order of the request, each column with the logical type that the
  configured mapping gives its native type; a column whose native type has no mapping
  makes the operation fail with UnsupportedTypeError naming the table and the column.
\<close>

fun map_columns ::
  "(string \<times> logical_type) list \<Rightarrow> string \<Rightarrow> (string \<times> string) list
     \<Rightarrow> error + (string \<times> logical_type) list" where
  "map_columns tm t [] = Inr []"
| "map_columns tm t ((c, n) # cs) =
     (case map_of tm n of
        None \<Rightarrow> Inl (UnsupportedTypeError (t @ ''.'' @ c))
      | Some l \<Rightarrow>
          (case map_columns tm t cs of
             Inl e \<Rightarrow> Inl e
           | Inr ls \<Rightarrow> Inr ((c, l) # ls)))"

definition table_info_of ::
  "(string \<times> logical_type) list \<Rightarrow> string \<Rightarrow> raw_table \<Rightarrow> error + table_info" where
  "table_info_of tm t raw =
     (case map_columns tm t (raw_columns raw) of
        Inl e \<Rightarrow> Inl e
      | Inr cols \<Rightarrow>
          Inr \<lparr>columns = cols,
               primary_key = raw_primary_key raw,
               geometry_column = raw_geometry_column raw\<rparr>)"

text \<open>
  \<open>table_model_of\<close> runs only when no requested table is missing, so its first case
  never drops a table.
\<close>

fun table_model_of ::
  "(string \<times> logical_type) list \<Rightarrow> (string \<times> raw_table) list \<Rightarrow> string list
     \<Rightarrow> table_model \<Rightarrow> error + table_model" where
  "table_model_of tm tabs [] m = Inr m"
| "table_model_of tm tabs (t # ts) m =
     (case map_of tabs t of
        None \<Rightarrow> table_model_of tm tabs ts m
      | Some raw \<Rightarrow>
          (case table_info_of tm t raw of
             Inl e \<Rightarrow> Inl e
           | Inr i \<Rightarrow> table_model_of tm tabs ts (AList.update t i m)))"

definition spec_create_table_config ::
  "spec_client \<Rightarrow> string list \<Rightarrow> (table_model, db_world) effect" where
  "spec_create_table_config c ts w =
     (if \<not> reachable w then (Inl ConnectionError, w)
      else case map_of (catalog w) (client_schema c) of
             None \<Rightarrow> (Inl (NotFoundError [client_schema c]), w)
           | Some tabs \<Rightarrow>
               (case filter (\<lambda>t. map_of tabs t = None) ts of
                  [] \<Rightarrow>
                    (case table_model_of (type_mapping w) tabs ts [] of
                       Inl e \<Rightarrow> (Inl e, w)
                     | Inr m \<Rightarrow> (Inr m, w))
                | m # ms \<Rightarrow> (Inl (NotFoundError (m # ms)), w)))"

text \<open>
  Modelled from the spec: DatabaseClient.dispose\_engine, the release of the database
  connection.
\<close>

definition spec_dispose_engine :: "spec_client \<Rightarrow> (unit, db_world) effect" where
  "spec_dispose_engine c w = (Inr (), w\<lparr>engine_disposed := True\<rparr>)"

text \<open>
  Modelled from the spec: the constructor of ApiService. The capability flags form a
  closed set \<open>known\<close>, validated at construction: a flag outside it is rejected with
  UnsupportedTypeError naming the flag.
\<close>

definition spec_ApiService ::
  "string list \<Rightarrow> string \<Rightarrow> table_model \<Rightarrow> string list \<Rightarrow> (generator, db_world) effect" where
  "spec_ApiService known sid tc blocks w =
     (case filter (\<lambda>b. b \<notin> set known) blocks of
        [] \<Rightarrow> (Inr (ApiServiceObj sid tc blocks), w)
      | b # bs \<Rightarrow> (Inl (UnsupportedTypeError b), w))"

text \<open>
  Modelled from the spec: the constructors of SQLProvider and TileProvider. They bind the
  generator to the table model and to their policies.
\<close>

definition spec_SQLProvider ::
  "string \<Rightarrow> string \<Rightarrow> table_model \<Rightarrow> string \<Rightarrow> bool \<Rightarrow> (generator, db_world) effect" where
  "spec_SQLProvider sid axis tc eng dock w = (Inr (SQLProviderObj sid axis tc eng dock), w)"

definition spec_TileProvider :: "string \<Rightarrow> table_model \<Rightarrow> (generator, db_world) effect" where
  "spec_TileProvider sid tc w = (Inr (TileProviderObj sid tc), w)"

text \<open>
  Modelled from the spec: the document production of the three generators. Feature
  types, provider entries and tilesets follow the order of the table model; the queryable
  properties of a table are its non-geometry columns and appear only when QUERYABLES is
  enabled; a table without a geometry column has no tileset.
\<close>

definition queryables :: "table_info \<Rightarrow> string list" where
  "queryables i = map fst (filter (\<lambda>(c, l). l \<noteq> Geometry) (columns i))"

fun document_of :: "generator \<Rightarrow> document" where
  "document_of (ApiServiceObj sid tc blocks) =
     ServiceDoc sid
       (map (\<lambda>(t, i). (t, if ''QUERYABLES'' \<in> set blocks then Some (queryables i) else None)) tc)
       blocks"
| "document_of (SQLProviderObj sid axis tc eng dock) = ProviderDoc sid axis dock tc"
| "document_of (TileProviderObj sid tc) =
     TilesDoc sid (map fst (filter (\<lambda>(t, i). geometry_column i \<noteq> None) tc))"

fun kind_of :: "generator \<Rightarrow> gen_kind" where
  "kind_of (ApiServiceObj sid tc blocks) = Service"
| "kind_of (SQLProviderObj sid axis tc eng dock) = Provider"
| "kind_of (TileProviderObj sid tc) = Tiles"

text \<open>
  Modelled from the spec: the Document Writer. It stores a document under the output
  location at the path named after the document's kind, creating or overwriting the file;
  a path that cannot be written makes it fail.
\<close>

definition write_document :: "string \<Rightarrow> gen_kind \<Rightarrow> document \<Rightarrow> (unit, db_world) effect" where
  "write_document dir k d w =
     (if (dir, k) \<in> set (locked w) then (Inl (OSError dir), w)
      else (Inr (), w\<lparr>files := (files w)((dir, k) \<mapsto> d)\<rparr>))"

text \<open>
  Modelled from the spec: \<^verbatim>\<open>create_yaml\<close> of a generator object, its document production
  handed to the Document Writer for the output location.
\<close>

definition spec_create_yaml :: "generator \<Rightarrow> string \<Rightarrow> (unit, db_world) effect" where
  "spec_create_yaml g dir = write_document dir (kind_of g) (document_of g)"

text \<open>
  Modelled from the spec: the imported classes together, over a closed set \<open>known\<close> of
  capability flags.
\<close>

definition spec_env ::
  "string list \<Rightarrow> (spec_client, string, table_model, generator, db_world) collaborators" where
  "spec_env known =
     \<lparr>DatabaseClient = spec_DatabaseClient,
      get_schema_tables = spec_get_schema_tables,
      create_table_config = spec_create_table_config,
      engine = client_conn_str,
      client_dispose_engine = spec_dispose_engine,
      ApiService = spec_ApiService known,
      SQLProvider = spec_SQLProvider,
      TileProvider = spec_TileProvider,
      create_yaml = spec_create_yaml\<rparr>"

text \<open>
  Modelled from the spec: the Metadata Source and the constructors of the generators do
  not write to the output location (only the Document Writer stores documents). \<open>out\<close>
  reads the output location off the world.
\<close>

definition construction_preserves ::
  "('c, 'e, 't, 'g, 'w) collaborators \<Rightarrow> ('w \<Rightarrow> 'o) \<Rightarrow> bool" where
  "construction_preserves env out \<longleftrightarrow>
     (\<forall>conn schema w. out (snd (DatabaseClient env conn schema w)) = out w) \<and>
     (\<forall>c w. out (snd (get_schema_tables env c w)) = out w) \<and>
     (\<forall>c ts w. out (snd (create_table_config env c ts w)) = out w) \<and>
     (\<forall>sid tc blocks w. out (snd (ApiService env sid tc blocks w)) = out w) \<and>
     (\<forall>sid axis tc eng dock w. out (snd (SQLProvider env sid axis tc eng dock w)) = out w) \<and>
     (\<forall>sid tc w. out (snd (TileProvider env sid tc w)) = out w)"


subsection \<open>A concrete database\<close>

text \<open>
  The schema \<open>geo\<close> of the specification's scenario: the table \<open>parks\<close> with a geometry
  column and the table \<open>stations\<close> without one, both with the primary key \<open>id\<close>, as the
  database holds them (\<open>geo_db\<close>) and as the table model holds them (\<open>geo_tables\<close>). The
  capability flags are the six default ones.
\<close>

definition geo_tables :: table_model where
  "geo_tables =
     [(''parks'',
       \<lparr>columns = [(''id'', Numeric), (''name'', Text), (''geom'', Geometry)],
        primary_key = Some ''id'',
        geometry_column = Some ''geom''\<rparr>),
      (''stations'',
       \<lparr>columns = [(''id'', Numeric), (''label'', Text)],
        primary_key = Some ''id'',
        geometry_column = None\<rparr>)]"

definition geo_db :: db_world where
  "geo_db =
     \<lparr>reachable = True,
      engine_disposed = False,
      type_mapping =
        [(''integer'', Numeric), (''text'', Text), (''boolean'', Boolean),
         (''date'', Date), (''geometry'', Geometry)],
      catalog =
        [(''geo'',
          [(''parks'',
            \<lparr>raw_columns = [(''id'', ''integer''), (''name'', ''text''), (''geom'', ''geometry'')],
             raw_primary_key = Some ''id'',
             raw_geometry_column = Some ''geom''\<rparr>),
           (''stations'',
            \<lparr>raw_columns = [(''id'', ''integer''), (''label'', ''text'')],
             raw_primary_key = Some ''id'',
             raw_geometry_column = None\<rparr>)])],
      locked = [],
      files = Map.empty\<rparr>"

definition geo_env ::
  "(spec_client, string, table_model, generator, db_world) collaborators" where
  "geo_env = spec_env default_api_blocks"

text \<open>The world before any call.\<close>

definition start :: "'w \<Rightarrow> 'w world" where
  "start w = \<lparr>calls = [], outside = w\<rparr>"

text \<open>
  The object that
  \<^verbatim>\<open>LDProxyConfigGenerator("svc", "geo", "postgresql://gis")\<close>
  builds on this database, and the calls its construction makes.
\<close>

definition geo_generator ::
  "(spec_client, table_model, generator) ldproxy_config_generator" where
  "geo_generator =
     \<lparr>service_id = ''svc'',
      schema_name = ''geo'',
      db_conn_str = ''postgresql://gis'',
      target_tables = Some [''parks'', ''stations''],
      api_blocks = [''QUERYABLES'', ''CRS'', ''FILTER'', ''TILES'', ''STYLES'', ''PROJECTIONS''],
      docker = False,
      db_client = \<lparr>client_conn_str = ''postgresql://gis'', client_schema = ''geo''\<rparr>,
      table_config = geo_tables,
      service_obj =
        ApiServiceObj ''svc'' geo_tables
          [''QUERYABLES'', ''CRS'', ''FILTER'', ''TILES'', ''STYLES'', ''PROJECTIONS''],
      sql_provider_obj = SQLProviderObj ''svc'' ''LON_LAT'' geo_tables ''postgresql://gis'' False,
      tile_provider_obj = TileProviderObj ''svc'' geo_tables\<rparr>"

definition geo_ready :: "db_world world" where
  "geo_ready =
     \<lparr>calls =
        [NewDatabaseClient ''postgresql://gis'' ''geo'',
         GetSchemaTables,
         CreateTableConfig [''parks'', ''stations''],
         NewApiService ''svc''
           [''QUERYABLES'', ''CRS'', ''FILTER'', ''TILES'', ''STYLES'', ''PROJECTIONS''],
         NewSQLProvider ''svc'' ''LON_LAT'' False,
         NewTileProvider ''svc''],
      outside = geo_db\<rparr>"

text \<open>The same database when it cannot be reached, and when the provider document under
  the output location \<open>out\<close> cannot be written.\<close>

definition geo_db_unreachable :: db_world where
  "geo_db_unreachable = geo_db\<lparr>reachable := False\<rparr>"

definition geo_db_locked :: db_world where
  "geo_db_locked = geo_db\<lparr>locked := [(''out'', Provider)]\<rparr>"

text \<open>
  The same database with a further table \<open>events\<close> whose column \<open>payload\<close> has the
  native type \<open>jsonb\<close>, for which no mapping is configured.
\<close>

definition geo_db_jsonb :: db_world where
  "geo_db_jsonb =
     geo_db\<lparr>catalog :=
       [(''geo'',
         [(''events'',
           \<lparr>raw_columns = [(''id'', ''integer''), (''payload'', ''jsonb'')],
            raw_primary_key = Some ''id'',
            raw_geometry_column = None\<rparr>)])]\<rparr>"


section \<open>Properties\<close>

subsection \<open>Sequencing and collaborator calls\<close>

lemma call_eq:
  "call c f s = (r, s') \<longleftrightarrow>
     (\<exists>w. f (outside s) = (r, w) \<and> s' = \<lparr>calls = calls s @ [c], outside = w\<rparr>)"
  by (auto simp: call_def split: prod.splits)

lemma return_eq: "return a s = (r, s') \<longleftrightarrow> r = Inr a \<and> s' = s"
  by (auto simp: return_def)

lemma bind_eq:
  "bind m k s = (r, s') \<longleftrightarrow>
     (\<exists>e. m s = (Inl e, s') \<and> r = Inl e) \<or> (\<exists>a s1. m s = (Inr a, s1) \<and> k a s1 = (r, s'))"
  by (auto simp: bind_def split: prod.splits sum.splits)


lemma py_or_default:
  "py_or None default_api_blocks =
     [''QUERYABLES'', ''CRS'', ''FILTER'', ''TILES'', ''STYLES'', ''PROJECTIONS'']"
  "py_or (Some []) default_api_blocks =
     [''QUERYABLES'', ''CRS'', ''FILTER'', ''TILES'', ''STYLES'', ''PROJECTIONS'']"
  by (simp_all add: py_or_def default_api_blocks_def)

subsection \<open>What a construction does\<close>

text \<open>A construction that returns an object has gone through every collaborator call.\<close>

lemma init_resources_Inr:
  assumes "init_resources env self s = (Inr g, s')"
  shows "\<exists>ts w1 tc w2 sv w3 sq w4 tl w5.
     (target_tables self = None
        \<and> get_schema_tables env (db_client self) (outside s) = (Inr ts, w1)
      \<or> target_tables self = Some ts \<and> w1 = outside s) \<and>
     create_table_config env (db_client self) ts w1 = (Inr tc, w2) \<and>
     ApiService env (service_id self) tc (api_blocks self) w2 = (Inr sv, w3) \<and>
     SQLProvider env (service_id self) ''LON_LAT'' tc (engine env (db_client self))
       (docker self) w3 = (Inr sq, w4) \<and>
     TileProvider env (service_id self) tc w4 = (Inr tl, w5) \<and>
     g = \<lparr>service_id = service_id self, schema_name = schema_name self,
          db_conn_str = db_conn_str self, target_tables = Some ts,
          api_blocks = api_blocks self, docker = docker self, db_client = db_client self,
          table_config = tc, service_obj = sv, sql_provider_obj = sq,
          tile_provider_obj = tl\<rparr> \<and>
     outside s' = w5"
  using assms unfolding init_resources_def
  by (auto simp: bind_eq call_eq return_eq split: option.splits)

lemma init_Inr:
  assumes "init env sid schema conn tables blocks dock s = (Inr g, s')"
  shows "\<exists>c w0 ts w1 tc w2 sv w3 sq w4 tl w5.
     DatabaseClient env conn schema (outside s) = (Inr c, w0) \<and>
     (tables = None \<and> get_schema_tables env c w0 = (Inr ts, w1)
      \<or> tables = Some ts \<and> w1 = w0) \<and>
     create_table_config env c ts w1 = (Inr tc, w2) \<and>
     ApiService env sid tc (py_or blocks default_api_blocks) w2 = (Inr sv, w3) \<and>
     SQLProvider env sid ''LON_LAT'' tc (engine env c) dock w3 = (Inr sq, w4) \<and>
     TileProvider env sid tc w4 = (Inr tl, w5) \<and>
     g = \<lparr>service_id = sid, schema_name = schema, db_conn_str = conn,
          target_tables = Some ts, api_blocks = py_or blocks default_api_blocks,
          docker = dock, db_client = c, table_config = tc, service_obj = sv,
          sql_provider_obj = sq, tile_provider_obj = tl\<rparr> \<and>
     outside s' = w5"
proof -
  from assms obtain c s0 where
    c: "call (NewDatabaseClient conn schema) (DatabaseClient env conn schema) s = (Inr c, s0)"
    and r: "init_resources env
       \<lparr>service_id = sid, schema_name = schema, db_conn_str = conn, target_tables = tables,
        api_blocks = py_or blocks default_api_blocks, docker = dock, db_client = c\<rparr> s0
       = (Inr g, s')"
    unfolding init_def by (auto simp: bind_eq)
  from c obtain w0 where w0: "DatabaseClient env conn schema (outside s) = (Inr c, w0)"
    and s0: "outside s0 = w0"
    by (auto simp: call_eq)
  from init_resources_Inr [OF r] s0 w0 show ?thesis
    by simp
qed




text \<open>The calls of a construction, whatever its outcome.\<close>

lemma init_resources_calls:
  assumes "init_resources env self s = (r, s')"
  shows "\<exists>cs. calls s' = calls s @ cs \<and>
     (\<forall>c\<in>set cs. c = GetSchemaTables \<or> (\<exists>ts. c = CreateTableConfig ts)
        \<or> c = NewApiService (service_id self) (api_blocks self)
        \<or> c = NewSQLProvider (service_id self) ''LON_LAT'' (docker self)
        \<or> c = NewTileProvider (service_id self))"
  using assms unfolding init_resources_def
  by (auto simp: bind_eq call_eq return_eq split: option.splits)

lemma init_calls:
  assumes "init env sid schema conn tables blocks dock s = (r, s')"
  shows "\<exists>cs. calls s' = calls s @ cs \<and>
     (\<forall>c\<in>set cs. c = NewDatabaseClient conn schema \<or> c = GetSchemaTables
        \<or> (\<exists>ts. c = CreateTableConfig ts)
        \<or> c = NewApiService sid (py_or blocks default_api_blocks)
        \<or> c = NewSQLProvider sid ''LON_LAT'' dock \<or> c = NewTileProvider sid)"
proof -
  let ?self = "\<lambda>c. \<lparr>service_id = sid, schema_name = schema, db_conn_str = conn,
        target_tables = tables, api_blocks = py_or blocks default_api_blocks,
        docker = dock, db_client = c\<rparr>"
  from assms consider
    (raised) e where
      "call (NewDatabaseClient conn schema) (DatabaseClient env conn schema) s = (Inl e, s')"
  | (client) c s0 where
      "call (NewDatabaseClient conn schema) (DatabaseClient env conn schema) s = (Inr c, s0)"
      "init_resources env (?self c) s0 = (r, s')"
    unfolding init_def by (auto simp: bind_eq)
  then show ?thesis
  proof cases
    case raised
    then have "calls s' = calls s @ [NewDatabaseClient conn schema]"
      by (auto simp: call_eq)
    then show ?thesis by simp
  next
    case client
    from client(1) have s0: "calls s0 = calls s @ [NewDatabaseClient conn schema]"
      by (auto simp: call_eq)
    from init_resources_calls [OF client(2)] obtain cs where
      cs: "calls s' = calls s0 @ cs"
      and each: "\<forall>c\<in>set cs. c = GetSchemaTables \<or> (\<exists>ts. c = CreateTableConfig ts)
         \<or> c = NewApiService sid (py_or blocks default_api_blocks)
         \<or> c = NewSQLProvider sid ''LON_LAT'' dock \<or> c = NewTileProvider sid"
      by auto
    from cs s0 have "calls s' = calls s @ (NewDatabaseClient conn schema # cs)"
      by simp
    moreover from each have "\<forall>c\<in>set (NewDatabaseClient conn schema # cs).
         c = NewDatabaseClient conn schema \<or> c = GetSchemaTables
         \<or> (\<exists>ts. c = CreateTableConfig ts)
         \<or> c = NewApiService sid (py_or blocks default_api_blocks)
         \<or> c = NewSQLProvider sid ''LON_LAT'' dock \<or> c = NewTileProvider sid"
      by auto
    ultimately show ?thesis by blast
  qed
qed

text \<open>
  What the collaborators of a construction leave alone, the construction leaves alone.
\<close>

lemma init_resources_outside:
  assumes "construction_preserves env out" and "init_resources env self s = (r, s')"
  shows "out (outside s') = out (outside s)"
  using assms(2) unfolding init_resources_def
  apply (auto simp: bind_eq call_eq return_eq split: option.splits)
  using assms(1) unfolding construction_preserves_def
  apply (metis snd_conv)+
  done

lemma init_outside:
  assumes "construction_preserves env out"
    and "init env sid schema conn tables blocks dock s = (r, s')"
  shows "out (outside s') = out (outside s)"
proof -
  from assms(1) have db: "\<And>w. out (snd (DatabaseClient env conn schema w)) = out w"
    unfolding construction_preserves_def by simp
  from assms(2) consider
    (raised) e w where "DatabaseClient env conn schema (outside s) = (Inl e, w)"
      "outside s' = w"
  | (client) c s0 where
      "call (NewDatabaseClient conn schema) (DatabaseClient env conn schema) s = (Inr c, s0)"
      "init_resources env
         \<lparr>service_id = sid, schema_name = schema, db_conn_str = conn, target_tables = tables,
          api_blocks = py_or blocks default_api_blocks, docker = dock, db_client = c\<rparr> s0
         = (r, s')"
    unfolding init_def by (auto simp: bind_eq call_eq)
  then show ?thesis
  proof cases
    case raised
    with db [of "outside s"] show ?thesis by simp
  next
    case client
    from client(1) obtain w where
      "DatabaseClient env conn schema (outside s) = (Inr c, w)" "outside s0 = w"
      by (auto simp: call_eq)
    with db [of "outside s"] have "out (outside s0) = out (outside s)"
      by simp
    with init_resources_outside [OF assms(1) client(2)] show ?thesis
      by simp
  qed
qed

subsection \<open>What a generation does\<close>

text \<open>
  The three ways a call of \<^verbatim>\<open>generate_yaml_files\<close> can go: the first, the second or
  the third \<^verbatim>\<open>create_yaml\<close> is the last one called.
\<close>

lemma generate_yaml_files_cases:
  assumes "generate_yaml_files env g dir s = (r, s')"
  shows "(\<exists>e w1. create_yaml env (service_obj g) dir (outside s) = (Inl e, w1) \<and> r = Inl e
            \<and> s' = \<lparr>calls = calls s @ [CreateYaml Service dir], outside = w1\<rparr>)
       \<or> (\<exists>u w1 e w2. create_yaml env (service_obj g) dir (outside s) = (Inr u, w1)
            \<and> create_yaml env (sql_provider_obj g) dir w1 = (Inl e, w2) \<and> r = Inl e
            \<and> s' = \<lparr>calls = calls s @ [CreateYaml Service dir, CreateYaml Provider dir],
                    outside = w2\<rparr>)
       \<or> (\<exists>u w1 u' w2 w3. create_yaml env (service_obj g) dir (outside s) = (Inr u, w1)
            \<and> create_yaml env (sql_provider_obj g) dir w1 = (Inr u', w2)
            \<and> create_yaml env (tile_provider_obj g) dir w2 = (r, w3)
            \<and> s' = \<lparr>calls = calls s @ [CreateYaml Service dir, CreateYaml Provider dir,
                      CreateYaml Tiles dir],
                    outside = w3\<rparr>)"
  using assms unfolding generate_yaml_files_def
  by (auto simp: bind_eq call_eq)

text \<open>An exception that leaves it was raised by one of the three calls.\<close>

lemma generate_yaml_files_error:
  assumes "generate_yaml_files env g dir s = (Inl e, s')"
  shows "\<exists>w w'. create_yaml env (service_obj g) dir w = (Inl e, w')
            \<or> create_yaml env (sql_provider_obj g) dir w = (Inl e, w')
            \<or> create_yaml env (tile_provider_obj g) dir w = (Inl e, w')"
  using generate_yaml_files_cases [OF assms] by auto

subsection \<open>Running the specification's collaborators\<close>

lemmas spec_defs =
  spec_DatabaseClient_def spec_get_schema_tables_def spec_create_table_config_def
  table_info_of_def
  spec_dispose_engine_def spec_ApiService_def spec_SQLProvider_def spec_TileProvider_def
  spec_create_yaml_def write_document_def

lemmas run_defs = bind_def call_def return_def

lemmas geo_defs =
  geo_env_def geo_db_def geo_tables_def geo_generator_def geo_ready_def
  geo_db_unreachable_def geo_db_locked_def geo_db_jsonb_def start_def
  default_api_blocks_def

lemma spec_env_simps:
  "DatabaseClient (spec_env known) = spec_DatabaseClient"
  "get_schema_tables (spec_env known) = spec_get_schema_tables"
  "create_table_config (spec_env known) = spec_create_table_config"
  "engine (spec_env known) = client_conn_str"
  "client_dispose_engine (spec_env known) = spec_dispose_engine"
  "ApiService (spec_env known) = spec_ApiService known"
  "SQLProvider (spec_env known) = spec_SQLProvider"
  "TileProvider (spec_env known) = spec_TileProvider"
  "create_yaml (spec_env known) = spec_create_yaml"
  by (simp_all add: spec_env_def)

text \<open>The runs on the concrete database, computed by unfolding the definitions.\<close>

lemma geo_init:
  "init geo_env ''svc'' ''geo'' ''postgresql://gis'' None None False (start geo_db)
     = (Inr geo_generator, geo_ready)"
  by (simp add: init_def init_resources_def run_defs py_or_def spec_env_simps spec_defs geo_defs)


lemma geo_init_unreachable:
  "init geo_env ''svc'' ''geo'' ''postgresql://gis'' None None False (start geo_db_unreachable)
     = (Inl ConnectionError,
        \<lparr>calls = [NewDatabaseClient ''postgresql://gis'' ''geo'', GetSchemaTables],
         outside = geo_db_unreachable\<rparr>)"
  by (simp add: init_def init_resources_def run_defs py_or_def spec_env_simps spec_defs geo_defs)

lemma geo_generate:
  "generate_yaml_files geo_env geo_generator ''out'' geo_ready
     = (Inr (),
        \<lparr>calls = calls geo_ready
           @ [CreateYaml Service ''out'', CreateYaml Provider ''out'', CreateYaml Tiles ''out''],
         outside = geo_db\<lparr>files :=
           [(''out'', Service) \<mapsto> document_of (service_obj geo_generator),
            (''out'', Provider) \<mapsto> document_of (sql_provider_obj geo_generator),
            (''out'', Tiles) \<mapsto> document_of (tile_provider_obj geo_generator)]\<rparr>\<rparr>)"
  by (simp add: generate_yaml_files_def run_defs spec_env_simps spec_defs geo_defs)

lemma geo_generate_locked:
  "generate_yaml_files geo_env geo_generator ''out'' (start geo_db_locked)
     = (Inl (OSError ''out''),
        \<lparr>calls = [CreateYaml Service ''out'', CreateYaml Provider ''out''],
         outside = geo_db_locked\<lparr>files :=
           [(''out'', Service) \<mapsto> document_of (service_obj geo_generator)]\<rparr>\<rparr>)"
  by (simp add: generate_yaml_files_def run_defs spec_env_simps spec_defs geo_defs)

lemma geo_generate_locked_disposed:
  "generate_yaml_files geo_env geo_generator ''out''
      (snd (dispose_engine geo_env geo_generator (start geo_db_locked)))
     = (Inl (OSError ''out''),
        \<lparr>calls = [DisposeEngine, CreateYaml Service ''out'', CreateYaml Provider ''out''],
         outside = geo_db_locked\<lparr>engine_disposed := True,
           files := [(''out'', Service) \<mapsto> document_of (service_obj geo_generator)]\<rparr>\<rparr>)"
  by (simp add: generate_yaml_files_def dispose_engine_def run_defs spec_env_simps spec_defs geo_defs)




text \<open>
  A column whose native type has no mapping stops the construction in
  \<^verbatim>\<open>create_table_config\<close>, with the table and the column named.
\<close>

lemma geo_init_jsonb:
  "init geo_env ''svc'' ''geo'' ''postgresql://gis'' None None False (start geo_db_jsonb)
     = (Inl (UnsupportedTypeError ''events.payload''),
        \<lparr>calls =
           [NewDatabaseClient ''postgresql://gis'' ''geo'',
            GetSchemaTables,
            CreateTableConfig [''events'']],
         outside = geo_db_jsonb\<rparr>)"
  by (simp add: init_def init_resources_def run_defs py_or_def spec_env_simps spec_defs geo_defs)

lemma geo_documents:
  "document_of (service_obj geo_generator) =
     ServiceDoc ''svc'' [(''parks'', Some [''id'', ''name'']), (''stations'', Some [''id'', ''label''])]
       [''QUERYABLES'', ''CRS'', ''FILTER'', ''TILES'', ''STYLES'', ''PROJECTIONS'']"
  "document_of (tile_provider_obj geo_generator) = TilesDoc ''svc'' [''parks'']"
  by (simp_all add: geo_defs queryables_def)

text \<open>
  The table model of the specification's DatabaseClient has an entry for exactly the
  requested tables, and none of its construction-time collaborators touches the stored
  documents.
\<close>

lemma table_model_of_keys:
  "table_model_of tm tabs ts m = Inr tc \<Longrightarrow>
     fst ` set tc = fst ` set m \<union> {t \<in> set ts. map_of tabs t \<noteq> None}"
  by (induction ts arbitrary: m)
     (auto simp: AList.dom_update split: option.splits sum.splits)

lemma spec_create_table_config_covers:
  assumes "spec_create_table_config c ts w = (Inr tc, w')"
  shows "set (map fst tc) = set ts"
proof -
  from assms obtain tabs where
    found: "filter (\<lambda>t. map_of tabs t = None) ts = []"
    and tc: "table_model_of (type_mapping w) tabs ts [] = Inr tc"
    by (auto simp: spec_create_table_config_def
        split: if_splits option.splits list.splits sum.splits)
  from found have "\<forall>t\<in>set ts. map_of tabs t \<noteq> None"
    by (simp add: filter_empty_conv)
  with table_model_of_keys [OF tc] show ?thesis
    by auto
qed

lemma spec_construction_preserves: "construction_preserves (spec_env known) files"
  by (simp add: construction_preserves_def spec_env_simps spec_defs
      split: option.splits list.splits sum.splits)

text \<open>
  A generation that returns has stored the document of each generator object under the
  output location, in the order of the three calls.
\<close>

lemma generate_yaml_files_stores:
  assumes "generate_yaml_files (spec_env known) g dir s = (Inr u, s')"
  shows "files (outside s') =
     (files (outside s))
       ((dir, kind_of (service_obj g)) \<mapsto> document_of (service_obj g),
        (dir, kind_of (sql_provider_obj g)) \<mapsto> document_of (sql_provider_obj g),
        (dir, kind_of (tile_provider_obj g)) \<mapsto> document_of (tile_provider_obj g))"
  using assms
  by (auto simp: generate_yaml_files_def run_defs spec_env_simps spec_create_yaml_def
      write_document_def split: if_splits prod.splits sum.splits)



lemma dispose_engine_spec:
  "dispose_engine (spec_env known) g s
     = (Inr (), \<lparr>calls = calls s @ [DisposeEngine],
                 outside = (outside s)\<lparr>engine_disposed := True\<rparr>\<rparr>)"
  by (simp add: dispose_engine_def call_def spec_env_simps spec_dispose_engine_def)

lemma dispose_engine_repeated:
  "outside (((\<lambda>s. snd (dispose_engine (spec_env known) g s)) ^^ Suc n) s)
     = (outside s)\<lparr>engine_disposed := True\<rparr>"
  by (induction n) (simp_all add: dispose_engine_spec)

section \<open>The claims\<close>

subsection \<open>Construction\<close>

text \<open>
  Claim C1. When the constructor is called with \<^verbatim>\<open>target_tables=None\<close>, the attribute
  \<^verbatim>\<open>target_tables\<close> of the finished object is the list that \<^verbatim>\<open>get_schema_tables\<close>
  returned during that construction, the table configuration is what
  \<^verbatim>\<open>create_table_config\<close> returned when asked for exactly that list, and, with a client
  whose \<^verbatim>\<open>create_table_config\<close> yields a table model over exactly the tables it is asked
  for (\<open>tables_of\<close> reads the tables off a table model), the table model covers exactly
  the enumerated tables: no more, no fewer.
\<close>

theorem target_tables_default_is_schema_enumeration:
  assumes client: "DatabaseClient env conn schema (outside s) = (Inr c, w0)"
    and enum: "get_schema_tables env c w0 = (Inr ts, w1)"
    and built: "init env sid schema conn None blocks dock s = (Inr g, s')"
    and covers: "\<forall>c' ts' w tc w'. create_table_config env c' ts' w = (Inr tc, w')
                   \<longrightarrow> set (tables_of tc) = set ts'"
  shows "target_tables g = Some ts
     \<and> (\<exists>w2. create_table_config env c ts w1 = (Inr (table_config g), w2))
     \<and> set (tables_of (table_config g)) = set ts"
proof -
  from init_Inr [OF built] client enum obtain w2 where
    "target_tables g = Some ts"
    "create_table_config env c ts w1 = (Inr (table_config g), w2)"
    by auto
  with covers show ?thesis by blast
qed

theorem target_tables_default_witness:
  "target_tables geo_generator = Some [''parks'', ''stations'']
   \<and> (\<exists>w2. create_table_config geo_env (db_client geo_generator) [''parks'', ''stations''] geo_db
              = (Inr (table_config geo_generator), w2))
   \<and> set (map fst (table_config geo_generator)) = {''parks'', ''stations''}"
proof -
  have client: "DatabaseClient geo_env ''postgresql://gis'' ''geo'' (outside (start geo_db))
      = (Inr (db_client geo_generator), geo_db)"
    by (simp add: spec_env_simps spec_defs geo_defs)
  have enum: "get_schema_tables geo_env (db_client geo_generator) geo_db
      = (Inr [''parks'', ''stations''], geo_db)"
    by (simp add: spec_env_simps spec_defs geo_defs)
  have covers: "\<forall>c' ts' w tc w'. create_table_config geo_env c' ts' w = (Inr tc, w')
      \<longrightarrow> set (map fst tc) = set ts'"
    using spec_create_table_config_covers by (auto simp: geo_env_def spec_env_simps)
  from target_tables_default_is_schema_enumeration [OF client enum geo_init covers]
  show ?thesis by simp
qed

text \<open>
  Claim C2. When the constructor is called without \<^verbatim>\<open>api_blocks\<close>, every construction of
  an ApiService it makes receives exactly the six flags QUERYABLES, CRS, FILTER, TILES,
  STYLES and PROJECTIONS, and in the finished object the attribute \<^verbatim>\<open>api_blocks\<close> is that
  list and \<^verbatim>\<open>service_obj\<close> is the ApiService built from it.
\<close>

theorem omitted_api_blocks_default:
  assumes "init env sid schema conn tables None dock s = (r, s')"
  shows "(\<exists>cs. calls s' = calls s @ cs \<and>
            (\<forall>i b. NewApiService i b \<in> set cs \<longrightarrow>
               b = [''QUERYABLES'', ''CRS'', ''FILTER'', ''TILES'', ''STYLES'', ''PROJECTIONS'']))
       \<and> (\<forall>g. r = Inr g \<longrightarrow>
            api_blocks g = [''QUERYABLES'', ''CRS'', ''FILTER'', ''TILES'', ''STYLES'', ''PROJECTIONS'']
            \<and> (\<exists>w w'. ApiService env sid (table_config g)
                  [''QUERYABLES'', ''CRS'', ''FILTER'', ''TILES'', ''STYLES'', ''PROJECTIONS''] w
                  = (Inr (service_obj g), w')))"
proof -
  from init_calls [OF assms] py_or_default(1)
  have "\<exists>cs. calls s' = calls s @ cs \<and>
            (\<forall>i b. NewApiService i b \<in> set cs \<longrightarrow>
               b = [''QUERYABLES'', ''CRS'', ''FILTER'', ''TILES'', ''STYLES'', ''PROJECTIONS''])"
    by fastforce
  moreover have "api_blocks g = [''QUERYABLES'', ''CRS'', ''FILTER'', ''TILES'', ''STYLES'', ''PROJECTIONS'']
            \<and> (\<exists>w w'. ApiService env sid (table_config g)
                  [''QUERYABLES'', ''CRS'', ''FILTER'', ''TILES'', ''STYLES'', ''PROJECTIONS''] w
                  = (Inr (service_obj g), w'))" if "r = Inr g" for g
  proof -
    from assms that have "init env sid schema conn tables None dock s = (Inr g, s')"
      by simp
    from init_Inr [OF this] py_or_default(1) obtain tc w2 sv w3 where
      "ApiService env sid tc
         [''QUERYABLES'', ''CRS'', ''FILTER'', ''TILES'', ''STYLES'', ''PROJECTIONS''] w2
         = (Inr sv, w3)"
      "table_config g = tc" "service_obj g = sv"
      "api_blocks g = [''QUERYABLES'', ''CRS'', ''FILTER'', ''TILES'', ''STYLES'', ''PROJECTIONS'']"
      by auto
    then show ?thesis by blast
  qed
  ultimately show ?thesis by blast
qed

theorem omitted_api_blocks_witness:
  "api_blocks geo_generator = [''QUERYABLES'', ''CRS'', ''FILTER'', ''TILES'', ''STYLES'', ''PROJECTIONS'']
   \<and> (\<exists>w w'. ApiService geo_env ''svc'' (table_config geo_generator)
          [''QUERYABLES'', ''CRS'', ''FILTER'', ''TILES'', ''STYLES'', ''PROJECTIONS''] w
          = (Inr (service_obj geo_generator), w'))"
  using omitted_api_blocks_default [OF geo_init] by simp






text \<open>
  Claim C7. A construction that fails has made no \<^verbatim>\<open>create_yaml\<close> call, so it has
  handed nothing to the document writer; and it leaves the output location as it was,
  when the collaborators it does call leave it so.
\<close>

theorem failed_construction_writes_nothing:
  assumes "init env sid schema conn tables blocks dock s = (Inl e, s')"
  shows "(\<exists>cs. calls s' = calls s @ cs \<and> (\<forall>k d. CreateYaml k d \<notin> set cs))
       \<and> (construction_preserves env out \<longrightarrow> out (outside s') = out (outside s))"
proof -
  from init_calls [OF assms]
  have "\<exists>cs. calls s' = calls s @ cs \<and> (\<forall>k d. CreateYaml k d \<notin> set cs)"
    by fastforce
  with init_outside [OF _ assms] show ?thesis by blast
qed

theorem failed_construction_witness:
  "fst (init geo_env ''svc'' ''geo'' ''postgresql://gis'' None None False
          (start geo_db_unreachable)) = Inl ConnectionError
   \<and> (\<exists>cs. calls (snd (init geo_env ''svc'' ''geo'' ''postgresql://gis'' None None False
                          (start geo_db_unreachable)))
               = calls (start geo_db_unreachable) @ cs
             \<and> (\<forall>k d. CreateYaml k d \<notin> set cs))
   \<and> files (outside (snd (init geo_env ''svc'' ''geo'' ''postgresql://gis'' None None False
                            (start geo_db_unreachable))))
       = files (outside (start geo_db_unreachable))"
  using failed_construction_writes_nothing [OF geo_init_unreachable, of files]
    spec_construction_preserves [of default_api_blocks, folded geo_env_def]
  by (simp add: geo_init_unreachable)

subsection \<open>Generation\<close>

text \<open>
  Claim C3. Every call of \<^verbatim>\<open>generate_yaml_files\<close> runs \<^verbatim>\<open>create_yaml\<close> of the service
  object on the world it starts in, then \<^verbatim>\<open>create_yaml\<close> of the provider object on the
  world that left, then \<^verbatim>\<open>create_yaml\<close> of the tile-provider object on the world that
  left, each with the given output location; only a raised exception ends it early. A
  call that returns has run all three, in this order, and ends in the world the third
  left; a call that raises ends in the world of the call that raised, after the calls
  before it. With the generators of the specification, whose \<^verbatim>\<open>create_yaml\<close> hands the
  document to the document writer, a call that returns has stored the three documents
  under the output location, in this order.
\<close>

theorem generate_calls_in_fixed_order:
  "(generate_yaml_files env g dir s = (r, s') \<longrightarrow>
      (\<forall>u. r = Inr u \<longrightarrow>
         (\<exists>u1 w1 u2 w2 w3.
            create_yaml env (service_obj g) dir (outside s) = (Inr u1, w1)
            \<and> create_yaml env (sql_provider_obj g) dir w1 = (Inr u2, w2)
            \<and> create_yaml env (tile_provider_obj g) dir w2 = (Inr u, w3)
            \<and> s' = \<lparr>calls = calls s @ [CreateYaml Service dir, CreateYaml Provider dir,
                        CreateYaml Tiles dir],
                     outside = w3\<rparr>))
      \<and> (\<forall>e. r = Inl e \<longrightarrow>
           (\<exists>w1. create_yaml env (service_obj g) dir (outside s) = (Inl e, w1)
              \<and> s' = \<lparr>calls = calls s @ [CreateYaml Service dir], outside = w1\<rparr>)
         \<or> (\<exists>u1 w1 w2.
              create_yaml env (service_obj g) dir (outside s) = (Inr u1, w1)
              \<and> create_yaml env (sql_provider_obj g) dir w1 = (Inl e, w2)
              \<and> s' = \<lparr>calls = calls s @ [CreateYaml Service dir, CreateYaml Provider dir],
                       outside = w2\<rparr>)
         \<or> (\<exists>u1 w1 u2 w2 w3.
              create_yaml env (service_obj g) dir (outside s) = (Inr u1, w1)
              \<and> create_yaml env (sql_provider_obj g) dir w1 = (Inr u2, w2)
              \<and> create_yaml env (tile_provider_obj g) dir w2 = (Inl e, w3)
              \<and> s' = \<lparr>calls = calls s @ [CreateYaml Service dir, CreateYaml Provider dir,
                          CreateYaml Tiles dir],
                       outside = w3\<rparr>)))
   \<and> (generate_yaml_files (spec_env known) gs ds ss = (Inr us, ss') \<longrightarrow>
        files (outside ss') =
          (files (outside ss))
            ((ds, kind_of (service_obj gs)) \<mapsto> document_of (service_obj gs),
             (ds, kind_of (sql_provider_obj gs)) \<mapsto> document_of (sql_provider_obj gs),
             (ds, kind_of (tile_provider_obj gs)) \<mapsto> document_of (tile_provider_obj gs)))"
proof -
  have "(\<forall>u. r = Inr u \<longrightarrow>
         (\<exists>u1 w1 u2 w2 w3.
            create_yaml env (service_obj g) dir (outside s) = (Inr u1, w1)
            \<and> create_yaml env (sql_provider_obj g) dir w1 = (Inr u2, w2)
            \<and> create_yaml env (tile_provider_obj g) dir w2 = (Inr u, w3)
            \<and> s' = \<lparr>calls = calls s @ [CreateYaml Service dir, CreateYaml Provider dir,
                        CreateYaml Tiles dir],
                     outside = w3\<rparr>))
      \<and> (\<forall>e. r = Inl e \<longrightarrow>
           (\<exists>w1. create_yaml env (service_obj g) dir (outside s) = (Inl e, w1)
              \<and> s' = \<lparr>calls = calls s @ [CreateYaml Service dir], outside = w1\<rparr>)
         \<or> (\<exists>u1 w1 w2.
              create_yaml env (service_obj g) dir (outside s) = (Inr u1, w1)
              \<and> create_yaml env (sql_provider_obj g) dir w1 = (Inl e, w2)
              \<and> s' = \<lparr>calls = calls s @ [CreateYaml Service dir, CreateYaml Provider dir],
                       outside = w2\<rparr>)
         \<or> (\<exists>u1 w1 u2 w2 w3.
              create_yaml env (service_obj g) dir (outside s) = (Inr u1, w1)
              \<and> create_yaml env (sql_provider_obj g) dir w1 = (Inr u2, w2)
              \<and> create_yaml env (tile_provider_obj g) dir w2 = (Inl e, w3)
              \<and> s' = \<lparr>calls = calls s @ [CreateYaml Service dir, CreateYaml Provider dir,
                          CreateYaml Tiles dir],
                       outside = w3\<rparr>))"
    if "generate_yaml_files env g dir s = (r, s')"
    using generate_yaml_files_cases [OF that] by auto
  with generate_yaml_files_stores [of known gs ds ss us ss'] show ?thesis
    by blast
qed

theorem generate_calls_witness:
  "(\<exists>w1 w2 w3.
      create_yaml geo_env (service_obj geo_generator) ''out'' (outside geo_ready) = (Inr (), w1)
      \<and> create_yaml geo_env (sql_provider_obj geo_generator) ''out'' w1 = (Inr (), w2)
      \<and> create_yaml geo_env (tile_provider_obj geo_generator) ''out'' w2 = (Inr (), w3)
      \<and> snd (generate_yaml_files geo_env geo_generator ''out'' geo_ready)
          = \<lparr>calls = calls geo_ready @ [CreateYaml Service ''out'', CreateYaml Provider ''out'',
                       CreateYaml Tiles ''out''],
             outside = w3\<rparr>)
   \<and> files (outside (snd (generate_yaml_files geo_env geo_generator ''out'' geo_ready)))
       = [(''out'', Service) \<mapsto> document_of (service_obj geo_generator),
          (''out'', Provider) \<mapsto> document_of (sql_provider_obj geo_generator),
          (''out'', Tiles) \<mapsto> document_of (tile_provider_obj geo_generator)]"
proof -
  note both = generate_calls_in_fixed_order
    [where env = geo_env and g = geo_generator and dir = "''out''" and s = geo_ready
       and known = default_api_blocks and gs = geo_generator and ds = "''out''"
       and ss = geo_ready]
  note order = mp [OF conjunct1 [OF both] geo_generate]
  note stored = mp [OF conjunct2 [OF both] geo_generate [unfolded geo_env_def]]
  from conjunct1 [OF order] have "\<exists>w1 w2 w3.
      create_yaml geo_env (service_obj geo_generator) ''out'' (outside geo_ready) = (Inr (), w1)
      \<and> create_yaml geo_env (sql_provider_obj geo_generator) ''out'' w1 = (Inr (), w2)
      \<and> create_yaml geo_env (tile_provider_obj geo_generator) ''out'' w2 = (Inr (), w3)
      \<and> snd (generate_yaml_files geo_env geo_generator ''out'' geo_ready)
          = \<lparr>calls = calls geo_ready @ [CreateYaml Service ''out'', CreateYaml Provider ''out'',
                       CreateYaml Tiles ''out''],
             outside = w3\<rparr>"
    by (simp add: geo_generate)
  moreover from stored
  have "files (outside (snd (generate_yaml_files geo_env geo_generator ''out'' geo_ready)))
       = [(''out'', Service) \<mapsto> document_of (service_obj geo_generator),
          (''out'', Provider) \<mapsto> document_of (sql_provider_obj geo_generator),
          (''out'', Tiles) \<mapsto> document_of (tile_provider_obj geo_generator)]"
    by (simp add: geo_generate)
  ultimately show ?thesis by blast
qed

text \<open>
  Claim C4. With the generators of the specification, two successive calls of
  \<^verbatim>\<open>generate_yaml_files\<close> on the same object and output location have the same outcome
  and leave the same stored documents: the second run writes the documents of the first
  once more, with their feature types and tilesets in the same order.
\<close>

theorem generate_twice_same_documents:
  assumes "generate_yaml_files (spec_env known) g dir s = (r1, s1)"
    and "generate_yaml_files (spec_env known) g dir s1 = (r2, s2)"
  shows "r2 = r1 \<and> files (outside s2) = files (outside s1)"
  using assms
  by (auto simp: generate_yaml_files_def run_defs spec_env_simps spec_create_yaml_def
      write_document_def split: if_splits prod.splits sum.splits)

theorem generate_twice_witness:
  "fst (generate_yaml_files geo_env geo_generator ''out''
          (snd (generate_yaml_files geo_env geo_generator ''out'' geo_ready))) = Inr ()
   \<and> files (outside (snd (generate_yaml_files geo_env geo_generator ''out''
          (snd (generate_yaml_files geo_env geo_generator ''out'' geo_ready)))))
      = [(''out'', Service) \<mapsto> document_of (service_obj geo_generator),
         (''out'', Provider) \<mapsto> document_of (sql_provider_obj geo_generator),
         (''out'', Tiles) \<mapsto> document_of (tile_provider_obj geo_generator)]"
proof -
  obtain r2 s2 where second: "generate_yaml_files geo_env geo_generator ''out''
      (snd (generate_yaml_files geo_env geo_generator ''out'' geo_ready)) = (r2, s2)"
    by (cases "generate_yaml_files geo_env geo_generator ''out''
      (snd (generate_yaml_files geo_env geo_generator ''out'' geo_ready))")
  have first: "generate_yaml_files geo_env geo_generator ''out'' geo_ready
      = (Inr (), snd (generate_yaml_files geo_env geo_generator ''out'' geo_ready))"
    by (simp add: geo_generate)
  from generate_twice_same_documents [OF first [unfolded geo_env_def] second [unfolded geo_env_def]]
  have "r2 = Inr ()"
    "files (outside s2) = files (outside (snd (generate_yaml_files geo_env geo_generator ''out'' geo_ready)))"
    by (simp_all add: geo_env_def)
  with second show ?thesis
    by (simp add: geo_generate geo_db_def)
qed

text \<open>
  Claim C8. When \<^verbatim>\<open>generate_yaml_files\<close> fails after \<^verbatim>\<open>create_yaml\<close> of the service
  object has returned, the world is the one that the failing call left, run after the
  calls before it: nothing is undone. Hence whatever holds of the world once the service
  document is written (\<open>P\<close>), and is not destroyed by the later \<^verbatim>\<open>create_yaml\<close> calls
  themselves, still holds after the failed call.
\<close>

theorem failed_generate_keeps_earlier_documents:
  assumes failed: "generate_yaml_files env g dir s = (Inl e, s')"
    and service: "create_yaml env (service_obj g) dir (outside s) = (Inr u, w1)"
  shows "((\<exists>w2. create_yaml env (sql_provider_obj g) dir w1 = (Inl e, w2) \<and> outside s' = w2)
          \<or> (\<exists>u' w2 w3. create_yaml env (sql_provider_obj g) dir w1 = (Inr u', w2)
                \<and> create_yaml env (tile_provider_obj g) dir w2 = (Inl e, w3) \<and> outside s' = w3))
       \<and> (P w1
            \<longrightarrow> (\<forall>w r w'. P w \<longrightarrow> create_yaml env (sql_provider_obj g) dir w = (r, w') \<longrightarrow> P w')
            \<longrightarrow> (\<forall>w r w'. P w \<longrightarrow> create_yaml env (tile_provider_obj g) dir w = (r, w') \<longrightarrow> P w')
            \<longrightarrow> P (outside s'))"
proof -
  from generate_yaml_files_cases [OF failed] service
  have paths: "(\<exists>w2. create_yaml env (sql_provider_obj g) dir w1 = (Inl e, w2) \<and> outside s' = w2)
          \<or> (\<exists>u' w2 w3. create_yaml env (sql_provider_obj g) dir w1 = (Inr u', w2)
                \<and> create_yaml env (tile_provider_obj g) dir w2 = (Inl e, w3) \<and> outside s' = w3)"
    by auto
  then have "P (outside s')"
    if "P w1"
      and "\<forall>w r w'. P w \<longrightarrow> create_yaml env (sql_provider_obj g) dir w = (r, w') \<longrightarrow> P w'"
      and "\<forall>w r w'. P w \<longrightarrow> create_yaml env (tile_provider_obj g) dir w = (r, w') \<longrightarrow> P w'"
    using that by blast
  with paths show ?thesis by blast
qed

theorem failed_generate_witness:
  "fst (generate_yaml_files geo_env geo_generator ''out'' (start geo_db_locked)) = Inl (OSError ''out'')
   \<and> files (outside (snd (generate_yaml_files geo_env geo_generator ''out'' (start geo_db_locked))))
        (''out'', Service)
      = Some (document_of (service_obj geo_generator))"
proof -
  let ?P = "\<lambda>w. files w (''out'', Service) = Some (document_of (service_obj geo_generator))"
  let ?w1 = "geo_db_locked\<lparr>files := [(''out'', Service) \<mapsto> document_of (service_obj geo_generator)]\<rparr>"
  have service: "create_yaml geo_env (service_obj geo_generator) ''out'' (outside (start geo_db_locked))
      = (Inr (), ?w1)"
    by (simp add: spec_env_simps spec_defs geo_defs)
  have P1: "?P ?w1" by simp
  have provider: "\<forall>w r w'. ?P w \<longrightarrow>
      create_yaml geo_env (sql_provider_obj geo_generator) ''out'' w = (r, w') \<longrightarrow> ?P w'"
    by (auto simp: spec_env_simps spec_defs geo_env_def geo_generator_def split: if_splits)
  have tiles: "\<forall>w r w'. ?P w \<longrightarrow>
      create_yaml geo_env (tile_provider_obj geo_generator) ''out'' w = (r, w') \<longrightarrow> ?P w'"
    by (auto simp: spec_env_simps spec_defs geo_env_def geo_generator_def split: if_splits)
  note kept = conjunct2
    [OF failed_generate_keeps_earlier_documents [OF geo_generate_locked service, of ?P]]
  from mp [OF mp [OF mp [OF kept P1] provider] tiles] geo_generate_locked
  show ?thesis by simp
qed

subsection \<open>Release\<close>

text \<open>
  Claim C9. The method \<^verbatim>\<open>dispose_engine\<close> is the \<^verbatim>\<open>dispose_engine\<close> call on the client
  and nothing else: it has the client's outcome and effect, and assigns no attribute of
  the object. With the DatabaseClient of the specification it succeeds however many times
  it has been called on the object before, and after any number of further calls the
  outside world is the one the first call left.
\<close>

theorem dispose_engine_idempotent:
  "fst (dispose_engine env g0 s0) = fst (client_dispose_engine env (db_client g0) (outside s0))
   \<and> outside (snd (dispose_engine env g0 s0))
       = snd (client_dispose_engine env (db_client g0) (outside s0))
   \<and> fst (dispose_engine (spec_env known) g
          (((\<lambda>s. snd (dispose_engine (spec_env known) g s)) ^^ n) s)) = Inr ()
   \<and> outside (((\<lambda>s. snd (dispose_engine (spec_env known) g s)) ^^ Suc n) s)
       = outside (snd (dispose_engine (spec_env known) g s))"
proof -
  have "fst (dispose_engine env g0 s0) = fst (client_dispose_engine env (db_client g0) (outside s0))
      \<and> outside (snd (dispose_engine env g0 s0))
          = snd (client_dispose_engine env (db_client g0) (outside s0))"
    by (simp add: dispose_engine_def call_def split: prod.splits)
  with dispose_engine_repeated [where known = known and g = g and n = n and s = s]
  show ?thesis
    by (simp add: dispose_engine_spec)
qed

text \<open>
  Claim C5, as amended. The class keeps no record of a release and raises no DisposedError
  of its own: whatever the imported classes do, an exception that leaves
  \<^verbatim>\<open>generate_yaml_files\<close> after \<^verbatim>\<open>dispose_engine\<close> was raised by one of the three
  \<^verbatim>\<open>create_yaml\<close> calls. With the collaborators of the specification,
  \<^verbatim>\<open>generate_yaml_files\<close> after \<^verbatim>\<open>dispose_engine\<close> has the outcome it has without the
  release and stores the same documents; it never fails with DisposedError.
\<close>

theorem generate_after_dispose_as_before:
  "(\<forall>e s'. generate_yaml_files env g0 dir0 (snd (dispose_engine env g0 s0)) = (Inl e, s') \<longrightarrow>
       (\<exists>w w'. create_yaml env (service_obj g0) dir0 w = (Inl e, w')
              \<or> create_yaml env (sql_provider_obj g0) dir0 w = (Inl e, w')
              \<or> create_yaml env (tile_provider_obj g0) dir0 w = (Inl e, w')))
   \<and> fst (generate_yaml_files (spec_env known) g dir (snd (dispose_engine (spec_env known) g s)))
     = fst (generate_yaml_files (spec_env known) g dir s)
   \<and> files (outside (snd (generate_yaml_files (spec_env known) g dir
                            (snd (dispose_engine (spec_env known) g s)))))
     = files (outside (snd (generate_yaml_files (spec_env known) g dir s)))
   \<and> fst (generate_yaml_files (spec_env known) g dir (snd (dispose_engine (spec_env known) g s)))
     \<noteq> Inl DisposedError"
proof -
  have "fst (generate_yaml_files (spec_env known) g dir (snd (dispose_engine (spec_env known) g s)))
     = fst (generate_yaml_files (spec_env known) g dir s)
   \<and> files (outside (snd (generate_yaml_files (spec_env known) g dir
                            (snd (dispose_engine (spec_env known) g s)))))
     = files (outside (snd (generate_yaml_files (spec_env known) g dir s)))
   \<and> fst (generate_yaml_files (spec_env known) g dir (snd (dispose_engine (spec_env known) g s)))
     \<noteq> Inl DisposedError"
    by (simp add: generate_yaml_files_def dispose_engine_def run_defs spec_env_simps
        spec_create_yaml_def write_document_def spec_dispose_engine_def)
  with generate_yaml_files_error [of env g0 dir0 "snd (dispose_engine env g0 s0)"]
  show ?thesis by blast
qed

theorem generate_after_dispose_witness:
  "fst (generate_yaml_files geo_env geo_generator ''out''
          (snd (dispose_engine geo_env geo_generator (start geo_db_locked))))
     = Inl (OSError ''out'')
   \<and> (\<exists>w w'. create_yaml geo_env (service_obj geo_generator) ''out'' w = (Inl (OSError ''out''), w')
            \<or> create_yaml geo_env (sql_provider_obj geo_generator) ''out'' w
                 = (Inl (OSError ''out''), w')
            \<or> create_yaml geo_env (tile_provider_obj geo_generator) ''out'' w
                 = (Inl (OSError ''out''), w'))"
proof -
  note raised = conjunct1 [OF generate_after_dispose_as_before
      [of geo_env geo_generator "''out''" "start geo_db_locked"], rule_format,
      OF geo_generate_locked_disposed]
  with geo_generate_locked_disposed show ?thesis
    by simp
qed

text \<open>
  The claim as first stated, that every call of \<^verbatim>\<open>generate_yaml_files\<close> after the release
  fails with DisposedError, is false: on the concrete database the object is constructed,
  released, and then generates its documents.
\<close>

theorem generate_after_dispose_counterexample:
  "init geo_env ''svc'' ''geo'' ''postgresql://gis'' None None False (start geo_db)
     = (Inr geo_generator, geo_ready)
   \<and> fst (dispose_engine geo_env geo_generator geo_ready) = Inr ()
   \<and> engine_disposed (outside (snd (dispose_engine geo_env geo_generator geo_ready)))
   \<and> fst (generate_yaml_files geo_env geo_generator ''out''
            (snd (dispose_engine geo_env geo_generator geo_ready))) = Inr ()
   \<and> fst (generate_yaml_files geo_env geo_generator ''out''
            (snd (dispose_engine geo_env geo_generator geo_ready))) \<noteq> Inl DisposedError"
  by (simp add: geo_init)
     (simp add: generate_yaml_files_def dispose_engine_def run_defs spec_env_simps spec_defs geo_defs)

end
